theory Spec2Isabelle
  imports Main "HOL-Library.AList"
begin

section \<open>JSON values and the Python operations on them\<close>

text \<open>
  The values \<^verbatim>\<open>json.loads\<close> produces and \<^verbatim>\<open>json.dumps\<close> accepts: \<^verbatim>\<open>None\<close>, booleans,
  integers, strings, lists and dicts with string keys. A dict is an association list in
  insertion order. Numbers with a fraction or an exponent are not represented, and a
  string is a list of code points below 256.
\<close>

datatype json =
    JNull
  | JBool bool
  | JInt int
  | JStr string
  | JArr "json list"
  | JObj "(string \<times> json) list"

type_synonym item = "(string \<times> json) list"

text \<open>Truth value testing, as in \<^verbatim>\<open>not sid\<close> and \<^verbatim>\<open>not item\<close>.\<close>

fun truthy :: "json \<Rightarrow> bool" where
  "truthy JNull = False"
| "truthy (JBool b) = b"
| "truthy (JInt i) = (i \<noteq> 0)"
| "truthy (JStr s) = (s \<noteq> [])"
| "truthy (JArr xs) = (xs \<noteq> [])"
| "truthy (JObj kvs) = (kvs \<noteq> [])"

text \<open>The name Python prints for the type of a value, used in its error messages.\<close>

fun type_name :: "json \<Rightarrow> string" where
  "type_name JNull = ''NoneType''"
| "type_name (JBool b) = ''bool''"
| "type_name (JInt i) = ''int''"
| "type_name (JStr s) = ''str''"
| "type_name (JArr xs) = ''list''"
| "type_name (JObj kvs) = ''dict''"

text \<open>\<^verbatim>\<open>needle in s\<close> on strings: \<^verbatim>\<open>needle\<close> occurs in \<^verbatim>\<open>s\<close> as a contiguous slice.\<close>

fun str_contains :: "string \<Rightarrow> string \<Rightarrow> bool" where
  "str_contains [] needle = (needle = [])"
| "str_contains (c # cs) needle =
     (take (length needle) (c # cs) = needle \<or> str_contains cs needle)"

text \<open>
  \<^verbatim>\<open>key in payload\<close>: membership among the keys of a dict, among the elements of a list,
  as a substring of a string; any other operand raises \<^verbatim>\<open>TypeError\<close>.
\<close>

fun py_in :: "string \<Rightarrow> json \<Rightarrow> string + bool" where
  "py_in key (JObj kvs) = Inr (key \<in> set (map fst kvs))"
| "py_in key (JArr xs) = Inr (JStr key \<in> set xs)"
| "py_in key (JStr s) = Inr (str_contains s key)"
| "py_in key v = Inl (''argument of type '' @ [CHR 0x27] @ type_name v @ [CHR 0x27] @ '' is not iterable'')"

text \<open>
  \<^verbatim>\<open>payload.get(key)\<close> and \<^verbatim>\<open>payload.items()\<close>: the value of a dict at the key, \<^verbatim>\<open>None\<close>
  when the key is absent, and its entries in order; a value that is not a dict has no
  such method and raises \<^verbatim>\<open>AttributeError\<close>.
\<close>

definition no_attribute :: "json \<Rightarrow> string \<Rightarrow> string" where
  "no_attribute v name =
     [CHR 0x27] @ type_name v @ [CHR 0x27] @ '' object has no attribute '' @ [CHR 0x27] @ name @ [CHR 0x27]"

fun py_get :: "json \<Rightarrow> string \<Rightarrow> string + json" where
  "py_get (JObj kvs) key = Inr (case map_of kvs key of None \<Rightarrow> JNull | Some v \<Rightarrow> v)"
| "py_get v key = Inl (no_attribute v ''get'')"

fun py_items :: "json \<Rightarrow> string + (string \<times> json) list" where
  "py_items (JObj kvs) = Inr kvs"
| "py_items v = Inl (no_attribute v ''items'')"

subsection \<open>Serialisation\<close>

fun dec_nat :: "nat \<Rightarrow> string" where
  "dec_nat n =
     (if n < 10 then [char_of (48 + n)]
      else dec_nat (n div 10) @ [char_of (48 + n mod 10)])"

declare dec_nat.simps [simp del]

definition dec_int :: "int \<Rightarrow> string" where
  "dec_int i = (if i < 0 then CHR ''-'' # dec_nat (nat (- i)) else dec_nat (nat i))"

definition hex_digit :: "nat \<Rightarrow> char" where
  "hex_digit n = (if n < 10 then char_of (48 + n) else char_of (87 + n))"

text \<open>
  The escapes of \<^verbatim>\<open>json.dumps\<close> with its default \<^verbatim>\<open>ensure_ascii=True\<close>: the quote, the
  backslash, the short escapes, and \<^verbatim>\<open>\u00XX\<close> for every other character outside the
  printable ASCII range.
\<close>

definition escape_char :: "char \<Rightarrow> string" where
  "escape_char c =
     (if c = CHR 0x22 then [CHR 0x5C, CHR 0x22]
      else if c = CHR 0x5C then [CHR 0x5C, CHR 0x5C]
      else if c = CHR 0x0A then [CHR 0x5C, CHR ''n'']
      else if c = CHR 0x0D then [CHR 0x5C, CHR ''r'']
      else if c = CHR 0x09 then [CHR 0x5C, CHR ''t'']
      else if c = CHR 0x08 then [CHR 0x5C, CHR ''b'']
      else if c = CHR 0x0C then [CHR 0x5C, CHR ''f'']
      else if (of_char c :: nat) < 32 \<or> 126 < (of_char c :: nat)
        then [CHR 0x5C, CHR ''u'', CHR ''0'', CHR ''0'',
              hex_digit (of_char c div 16), hex_digit (of_char c mod 16)]
      else [c])"

definition quote :: "string \<Rightarrow> string" where
  "quote s = CHR 0x22 # concat (map escape_char s) @ [CHR 0x22]"

fun join :: "string \<Rightarrow> string list \<Rightarrow> string" where
  "join sep [] = []"
| "join sep [x] = x"
| "join sep (x # y # ys) = x @ sep @ join sep (y # ys)"

text \<open>\<^verbatim>\<open>json.dumps\<close> with its default separators \<^verbatim>\<open>', '\<close> and \<^verbatim>\<open>': '\<close>.\<close>

fun json_dumps :: "json \<Rightarrow> string" where
  "json_dumps JNull = ''null''"
| "json_dumps (JBool b) = (if b then ''true'' else ''false'')"
| "json_dumps (JInt i) = dec_int i"
| "json_dumps (JStr s) = quote s"
| "json_dumps (JArr xs) = ''['' @ join '', '' (map json_dumps xs) @ '']''"
| "json_dumps (JObj kvs) =
     ''{'' @ join '', '' (map (\<lambda>kv. quote (fst kv) @ '': '' @ json_dumps (snd kv)) kvs) @ ''}''"

section \<open>Requests and responses\<close>

text \<open>
  The event of the HTTP gateway, with the three entries the handler reads.
  \<open>httpMethod\<close> is \<open>None\<close> when the event has no such key and otherwise the value under
  the key, which may be \<^verbatim>\<open>None\<close> or any other value: \<^verbatim>\<open>event.get("httpMethod", "GET")\<close>
  defaults only for the missing key. For the two other entries \<open>None\<close> is a key that is
  missing or holds \<^verbatim>\<open>None\<close>, which \<^verbatim>\<open>event.get(...) or ...\<close> treats alike; the body is a
  text and the values of the query parameters are strings.
\<close>

record event =
  httpMethod :: "json option"
  body :: "string option"
  queryStringParameters :: "(string \<rightharpoonup> string) option"

record response =
  statusCode :: int
  headers :: "(string \<times> string) list"
  body :: string

text \<open>
  \<^verbatim>\<open>_resp(status, body=None)\<close>: the body is serialised unless it is \<^verbatim>\<open>None\<close>; only then is
  the body text empty.
\<close>

definition resp :: "int \<Rightarrow> json option \<Rightarrow> response" where
  "resp status b =
     \<lparr>statusCode = status,
      headers =
        [(''Content-Type'', ''application/json''),
         (''Access-Control-Allow-Origin'', ''*''),
         (''Access-Control-Allow-Headers'', ''Content-Type,Authorization''),
         (''Access-Control-Allow-Methods'', ''GET,POST,PUT,DELETE,OPTIONS'')],
      body = (case b of None \<Rightarrow> [] | Some v \<Rightarrow> json_dumps v)\<rparr>"

section \<open>The table\<close>

text \<open>
  The four calls the handler makes on the table. The update expression
  \<^verbatim>\<open>"SET " + ", ".join(expr)\<close> is kept as the list of its clauses, each the pair of
  placeholders of one \<^verbatim>\<open>#_k = :k\<close>, next to the two placeholder dictionaries.
\<close>

datatype call =
    PutItem json
  | GetItem json
  | UpdateItem json "(string \<times> string) list" "(string \<times> string) list" "(string \<times> json) list"
  | DeleteItem json

text \<open>The dict a call returns: \<^verbatim>\<open>Item\<close> for a read that finds a record, \<^verbatim>\<open>Attributes\<close> for an update.\<close>

record reply =
  Item :: "item option"
  Attributes :: "item option"

text \<open>
  The state of the table: the records by their key, and the calls made so far, oldest
  first. The list of calls is there to state which requests reach the table; no
  operation reads it.
\<close>

record table =
  items :: "string \<rightharpoonup> item"
  calls :: "call list"

text \<open>
  What lies outside the handler and the table's rules: \<open>outage\<close> gives, for a call the
  storage layer cannot serve (no connection, throttling), the message of the exception
  it raises, and \<open>refusal\<close> the message of the exception with which the layer refuses a
  call that breaks the table's rules. Both are parameters: no message of the layer is
  fixed here.
\<close>

record layer =
  outage :: "call \<Rightarrow> string option"
  refusal :: "call \<Rightarrow> string"

text \<open>The key of a record is a string that is not empty (section 3 of the specification).\<close>

fun key_of :: "json \<Rightarrow> string option" where
  "key_of (JStr s) = (if s = [] then None else Some s)"
| "key_of v = None"

text \<open>
  One clause \<^verbatim>\<open>SET #n = :v\<close> after another, each placeholder resolved in its dictionary;
  \<open>None\<close> when a placeholder has no entry.
\<close>

fun apply_set ::
  "(string \<times> string) list \<Rightarrow> (string \<times> json) list \<Rightarrow> item \<Rightarrow> (string \<times> string) list \<Rightarrow> item option" where
  "apply_set names vals it [] = Some it"
| "apply_set names vals it ((n, v) # cs) =
     (case map_of names n of
        None \<Rightarrow> None
      | Some a \<Rightarrow>
          (case map_of vals v of
             None \<Rightarrow> None
           | Some x \<Rightarrow> apply_set names vals (AList.update a x it) cs))"

text \<open>
  Modelled from the spec: the external key-value store, which is not code of this
  repository. Section 6: put-by-key with full overwrite, get-by-key, attribute-level
  update-by-key returning the record after the update, delete-by-key, attributes
  handed back as they were written. Section 3: the primary key is the string
  \<^verbatim>\<open>student_id\<close> and no stored record has an empty one, so the store refuses a call
  whose key is not a non-empty string, and an item to put that is no mapping with such
  a key. Sections 4.1 and 9: an update on a key that has no record creates the record
  with only the updated attributes.
\<close>

definition store_exec ::
  "layer \<Rightarrow> call \<Rightarrow> (string \<rightharpoonup> item) \<Rightarrow> string + reply \<times> (string \<rightharpoonup> item)" where
  "store_exec l c m =
     (case outage l c of
        Some e \<Rightarrow> Inl e
      | None \<Rightarrow>
          (case c of
             PutItem v \<Rightarrow>
               (case v of
                  JObj kvs \<Rightarrow>
                    (case map_of kvs ''student_id'' of
                       None \<Rightarrow> Inl (refusal l c)
                     | Some k \<Rightarrow>
                         (case key_of k of
                            None \<Rightarrow> Inl (refusal l c)
                          | Some s \<Rightarrow> Inr (\<lparr>Item = None, Attributes = None\<rparr>, m(s \<mapsto> kvs))))
                | _ \<Rightarrow> Inl (refusal l c))
           | GetItem k \<Rightarrow>
               (case key_of k of
                  None \<Rightarrow> Inl (refusal l c)
                | Some s \<Rightarrow> Inr (\<lparr>Item = m s, Attributes = None\<rparr>, m))
           | UpdateItem k cs names vals \<Rightarrow>
               (case key_of k of
                  None \<Rightarrow> Inl (refusal l c)
                | Some s \<Rightarrow>
                    (case apply_set names vals (case m s of None \<Rightarrow> [] | Some it \<Rightarrow> it) cs of
                       None \<Rightarrow> Inl (refusal l c)
                     | Some it \<Rightarrow> Inr (\<lparr>Item = None, Attributes = Some it\<rparr>, m(s \<mapsto> it))))
           | DeleteItem k \<Rightarrow>
               (case key_of k of
                  None \<Rightarrow> Inl (refusal l c)
                | Some s \<Rightarrow> Inr (\<lparr>Item = None, Attributes = None\<rparr>, m(s := None)))))"

text \<open>A call on the table: it is recorded, then served or answered with an exception.\<close>

definition perform :: "layer \<Rightarrow> call \<Rightarrow> table \<Rightarrow> (string + reply) \<times> table" where
  "perform l c t =
     (case store_exec l c (items t) of
        Inl e \<Rightarrow> (Inl e, t\<lparr>calls := calls t @ [c]\<rparr>)
      | Inr (r, m) \<Rightarrow> (Inr r, \<lparr>items = m, calls = calls t @ [c]\<rparr>))"

section \<open>The handler\<close>

text \<open>
  The loop of the PUT branch over \<^verbatim>\<open>payload.items()\<close>: the key is skipped, every other
  field adds its clause to \<^verbatim>\<open>expr\<close> and its placeholders to \<^verbatim>\<open>names\<close> and \<^verbatim>\<open>values\<close>.
\<close>

fun update_parts ::
  "(string \<times> json) list \<Rightarrow>
   (string \<times> string) list \<times> (string \<times> string) list \<times> (string \<times> json) list \<Rightarrow>
   (string \<times> string) list \<times> (string \<times> string) list \<times> (string \<times> json) list" where
  "update_parts [] acc = acc"
| "update_parts ((k, v) # kvs) (expr, names, vals) =
     (if k = ''student_id'' then update_parts kvs (expr, names, vals)
      else update_parts kvs
             (expr @ [(''#_'' @ k, '':'' @ k)],
              AList.update (''#_'' @ k) k names,
              AList.update ('':'' @ k) v vals))"

text \<open>\<^verbatim>\<open>event.get("body") or "{}"\<close> and \<^verbatim>\<open>event.get("queryStringParameters") or {}\<close>.\<close>

definition body_text :: "event \<Rightarrow> string" where
  "body_text ev = (case event.body ev of None \<Rightarrow> ''{}'' | Some b \<Rightarrow> if b = [] then ''{}'' else b)"

definition query_params :: "event \<Rightarrow> (string \<rightharpoonup> string)" where
  "query_params ev = (case queryStringParameters ev of None \<Rightarrow> Map.empty | Some q \<Rightarrow> q)"

text \<open>
  The branches of the \<^verbatim>\<open>try\<close> block. Each returns the response, or \<open>Inl\<close> the message of
  the exception that left it, and the table. The parameter \<open>loads\<close> is \<^verbatim>\<open>json.loads\<close>:
  the parsed value, or \<open>Inl\<close> the message of its \<^verbatim>\<open>JSONDecodeError\<close>.
\<close>

definition handle_post ::
  "(string \<Rightarrow> string + json) \<Rightarrow> layer \<Rightarrow> event \<Rightarrow> table \<Rightarrow> (string + response) \<times> table" where
  "handle_post loads l ev t =
     (case loads (body_text ev) of
        Inl e \<Rightarrow> (Inl e, t)
      | Inr payload \<Rightarrow>
          (case py_in ''student_id'' payload of
             Inl e \<Rightarrow> (Inl e, t)
           | Inr present \<Rightarrow>
               if \<not> present
               then (Inr (resp 400 (Some (JObj [(''error'', JStr ''student_id is required'')]))), t)
               else
                 (case perform l (PutItem payload) t of
                    (Inl e, t') \<Rightarrow> (Inl e, t')
                  | (Inr res, t') \<Rightarrow>
                      (Inr (resp 200 (Some (JObj [(''message'', JStr ''Student record created''),
                                                  (''student'', payload)]))), t'))))"

definition handle_get :: "layer \<Rightarrow> event \<Rightarrow> table \<Rightarrow> (string + response) \<times> table" where
  "handle_get l ev t =
     (case query_params ev ''student_id'' of
        None \<Rightarrow> (Inr (resp 400 (Some (JObj [(''error'', JStr ''student_id is required'')]))), t)
      | Some sid \<Rightarrow>
          if sid = []
          then (Inr (resp 400 (Some (JObj [(''error'', JStr ''student_id is required'')]))), t)
          else
            (case perform l (GetItem (JStr sid)) t of
               (Inl e, t') \<Rightarrow> (Inl e, t')
             | (Inr res, t') \<Rightarrow>
                 (case Item res of
                    None \<Rightarrow> (Inr (resp 404 (Some (JObj [(''error'', JStr ''not found'')]))), t')
                  | Some it \<Rightarrow>
                      if it = []
                      then (Inr (resp 404 (Some (JObj [(''error'', JStr ''not found'')]))), t')
                      else (Inr (resp 200 (Some (JObj it))), t'))))"

definition handle_put ::
  "(string \<Rightarrow> string + json) \<Rightarrow> layer \<Rightarrow> event \<Rightarrow> table \<Rightarrow> (string + response) \<times> table" where
  "handle_put loads l ev t =
     (case loads (body_text ev) of
        Inl e \<Rightarrow> (Inl e, t)
      | Inr payload \<Rightarrow>
          (case py_get payload ''student_id'' of
             Inl e \<Rightarrow> (Inl e, t)
           | Inr sid \<Rightarrow>
               if \<not> truthy sid
               then (Inr (resp 400 (Some (JObj [(''error'', JStr ''student_id is required'')]))), t)
               else
                 (case py_items payload of
                    Inl e \<Rightarrow> (Inl e, t)
                  | Inr kvs \<Rightarrow>
                      (case update_parts kvs ([], [], []) of
                         (expr, names, vals) \<Rightarrow>
                           if expr = []
                           then (Inr (resp 400 (Some (JObj [(''error'', JStr ''no fields to update'')]))), t)
                           else
                             (case perform l (UpdateItem sid expr names vals) t of
                                (Inl e, t') \<Rightarrow> (Inl e, t')
                              | (Inr res, t') \<Rightarrow>
                                  (case Attributes res of
                                     None \<Rightarrow> (Inl ([CHR 0x27] @ ''Attributes'' @ [CHR 0x27]), t')
                                   | Some a \<Rightarrow>
                                       (Inr (resp 200 (Some (JObj [(''message'', JStr ''Student record updated''),
                                                                   (''student'', JObj a)]))), t')))))))"

definition handle_delete :: "layer \<Rightarrow> event \<Rightarrow> table \<Rightarrow> (string + response) \<times> table" where
  "handle_delete l ev t =
     (case query_params ev ''student_id'' of
        None \<Rightarrow> (Inr (resp 400 (Some (JObj [(''error'', JStr ''student_id is required'')]))), t)
      | Some sid \<Rightarrow>
          if sid = []
          then (Inr (resp 400 (Some (JObj [(''error'', JStr ''student_id is required'')]))), t)
          else
            (case perform l (DeleteItem (JStr sid)) t of
               (Inl e, t') \<Rightarrow> (Inl e, t')
             | (Inr res, t') \<Rightarrow>
                 (Inr (resp 200 (Some (JObj [(''message'', JStr (''Student '' @ sid @ '' deleted''))]))), t')))"

text \<open>
  The \<^verbatim>\<open>try\<close> block: the dispatch on the method, with 405 for any other method. The
  method is the value read from the event; it equals a method name only when it is
  that string.
\<close>

definition try_block ::
  "(string \<Rightarrow> string + json) \<Rightarrow> layer \<Rightarrow> json \<Rightarrow> event \<Rightarrow> table \<Rightarrow> (string + response) \<times> table" where
  "try_block loads l method ev t =
     (if method = JStr ''POST'' then handle_post loads l ev t
      else if method = JStr ''GET'' then handle_get l ev t
      else if method = JStr ''PUT'' then handle_put loads l ev t
      else if method = JStr ''DELETE'' then handle_delete l ev t
      else (Inr (resp 405 (Some (JObj [(''error'', JStr ''method not allowed'')]))), t))"

text \<open>
  \<^verbatim>\<open>lambda_handler(event, context)\<close>: the method defaults to GET when the event has no
  \<^verbatim>\<open>httpMethod\<close> key, OPTIONS is answered before the \<^verbatim>\<open>try\<close> block, and an exception that
  leaves the block becomes the 500 response with its message.
\<close>

definition lambda_handler ::
  "(string \<Rightarrow> string + json) \<Rightarrow> layer \<Rightarrow> event \<Rightarrow> table \<Rightarrow> response \<times> table" where
  "lambda_handler loads l ev t =
     (let method = (case httpMethod ev of None \<Rightarrow> JStr ''GET'' | Some m \<Rightarrow> m) in
      if method = JStr ''OPTIONS'' then (resp 200 (Some (JObj [])), t)
      else
        (case try_block loads l method ev t of
           (Inl e, t') \<Rightarrow> (resp 500 (Some (JObj [(''error'', JStr e)])), t')
         | (Inr r, t') \<Rightarrow> (r, t')))"

section \<open>Notions used in the statements\<close>

text \<open>The fields of a payload other than the key, in their order.\<close>

definition fields :: "item \<Rightarrow> item" where
  "fields kvs = filter (\<lambda>kv. fst kv \<noteq> ''student_id'') kvs"

text \<open>A record with the given fields set on it one after the other.\<close>

definition overwrite :: "item \<Rightarrow> item \<Rightarrow> item" where
  "overwrite r fs = fold (\<lambda>kv. AList.update (fst kv) (snd kv)) fs r"

text \<open>The call the PUT branch makes for a payload and its key.\<close>

definition put_call :: "json \<Rightarrow> item \<Rightarrow> call" where
  "put_call sid kvs =
     (case update_parts kvs ([], [], []) of (expr, names, vals) \<Rightarrow> UpdateItem sid expr names vals)"

text \<open>
  The shape of a table that the store and the handler keep: no record under the empty
  key, and no record without any attribute.
\<close>

definition table_shape :: "(string \<rightharpoonup> item) \<Rightarrow> bool" where
  "table_shape m \<longleftrightarrow> m [] = None \<and> (\<forall>k. m k \<noteq> Some [])"

text \<open>An update the handler makes has at least one clause.\<close>

fun call_guarded :: "call \<Rightarrow> bool" where
  "call_guarded (UpdateItem k cs ns vs) = (cs \<noteq> [])"
| "call_guarded c = True"

text \<open>
  A branch makes no call and leaves the table as it is, or makes one guarded call, and
  then an exception of the call is the exception of the branch.
\<close>

definition effect_of :: "layer \<Rightarrow> table \<Rightarrow> (string + response) \<times> table \<Rightarrow> bool" where
  "effect_of l t out \<longleftrightarrow>
     snd out = t \<or>
     (\<exists>c. call_guarded c \<and> snd out = snd (perform l c t) \<and>
          (\<forall>e. fst (perform l c t) = Inl e \<longrightarrow> fst out = Inl e))"

subsection \<open>Concrete inputs\<close>

text \<open>
  A storage layer that is in service and one that is out of reach, the empty table,
  and a stand-in for \<^verbatim>\<open>json.loads\<close> that parses the texts of the listed values and
  rejects every other text with the message Python gives for a text that starts with
  no JSON value.
\<close>

definition no_outage :: "call \<Rightarrow> string option" where
  "no_outage c = None"

definition no_connection :: "call \<Rightarrow> string option" where
  "no_connection c = Some ''Could not connect to the endpoint URL''"

definition refused :: "call \<Rightarrow> string" where
  "refused c = ''ValidationException''"

definition in_service :: layer where
  "in_service = \<lparr>outage = no_outage, refusal = refused\<rparr>"

definition out_of_reach :: layer where
  "out_of_reach = \<lparr>outage = no_connection, refusal = refused\<rparr>"

definition empty_table :: table where
  "empty_table = \<lparr>items = Map.empty, calls = []\<rparr>"

text \<open>
  The tables that requests can lead to from the empty table, whatever the requests and
  whatever the storage layer does.
\<close>

inductive reachable :: "table \<Rightarrow> bool" where
  init: "reachable empty_table"
| step: "reachable t \<Longrightarrow> reachable (snd (lambda_handler loads l ev t))"

definition loads_of :: "json list \<Rightarrow> string \<Rightarrow> string + json" where
  "loads_of vs s =
     (case find (\<lambda>v. json_dumps v = s) vs of
        None \<Rightarrow> Inl ''Expecting value: line 1 column 1 (char 0)''
      | Some v \<Rightarrow> Inr v)"

text \<open>The payloads of the scenario of section 8 of the specification, and one with an empty key.\<close>

definition ann :: json where
  "ann = JObj [(''student_id'', JStr ''s1''), (''name'', JStr ''Ann'')]"

definition grade_a :: json where
  "grade_a = JObj [(''student_id'', JStr ''s1''), (''grade'', JStr ''A'')]"

definition nobody :: json where
  "nobody = JObj [(''student_id'', JStr []), (''name'', JStr ''Ann'')]"

text \<open>
  The requests of the gateway: a POST and a PUT with the text of a value as body, a GET
  and a DELETE with the query parameter \<^verbatim>\<open>student_id\<close>.
\<close>

abbreviation post_of :: "json \<Rightarrow> event" where
  "post_of v \<equiv>
     \<lparr>httpMethod = Some (JStr ''POST''), body = Some (json_dumps v), queryStringParameters = None\<rparr>"

abbreviation put_of :: "json \<Rightarrow> event" where
  "put_of v \<equiv>
     \<lparr>httpMethod = Some (JStr ''PUT''), body = Some (json_dumps v), queryStringParameters = None\<rparr>"

abbreviation get_of :: "string \<Rightarrow> event" where
  "get_of s \<equiv>
     \<lparr>httpMethod = Some (JStr ''GET''), body = None,
      queryStringParameters = Some (map_of [(''student_id'', s)])\<rparr>"

abbreviation delete_of :: "string \<Rightarrow> event" where
  "delete_of s \<equiv>
     \<lparr>httpMethod = Some (JStr ''DELETE''), body = None,
      queryStringParameters = Some (map_of [(''student_id'', s)])\<rparr>"

text \<open>The table that holds the record of the scenario.\<close>

definition ann_table :: table where
  "ann_table = \<lparr>items = [''s1'' \<mapsto> [(''student_id'', JStr ''s1''), (''name'', JStr ''Ann'')]], calls = []\<rparr>"

section \<open>Auxiliary facts\<close>

lemmas handler_defs =
  lambda_handler_def try_block_def handle_post_def handle_get_def handle_put_def
  handle_delete_def perform_def store_exec_def body_text_def query_params_def

lemmas example_defs =
  no_outage_def no_connection_def refused_def in_service_def out_of_reach_def
  empty_table_def loads_of_def ann_def grade_a_def nobody_def ann_table_def
  quote_def escape_char_def

lemma resp_simps: "statusCode (resp st b) = st"
  "response.body (resp st b) = (case b of None \<Rightarrow> [] | Some v \<Rightarrow> json_dumps v)"
  by (simp_all add: resp_def)

lemma key_of_Some: "key_of k = Some s \<longleftrightarrow> k = JStr s \<and> s \<noteq> []"
  by (cases k) auto

subsection \<open>The loop of the PUT branch and the update it describes\<close>

lemma update_parts_only_key:
  "fst ` set kvs \<subseteq> {''student_id''} \<Longrightarrow> update_parts kvs acc = acc"
  by (induction kvs acc rule: update_parts.induct) auto

lemma update_absent: "k \<notin> fst ` set xs \<Longrightarrow> AList.update k v xs = xs @ [(k, v)]"
  by (induction xs) auto

lemma update_parts_explicit:
  "distinct (map fst kvs) \<Longrightarrow>
   \<forall>k \<in> fst ` set kvs. (''#_'' @ k) \<notin> fst ` set names \<and> ('':'' @ k) \<notin> fst ` set vals \<Longrightarrow>
   update_parts kvs (expr, names, vals) =
     (expr @ map (\<lambda>kv. (''#_'' @ fst kv, '':'' @ fst kv)) (fields kvs),
      names @ map (\<lambda>kv. (''#_'' @ fst kv, fst kv)) (fields kvs),
      vals @ map (\<lambda>kv. ('':'' @ fst kv, snd kv)) (fields kvs))"
proof (induction kvs arbitrary: expr names vals)
  case Nil
  then show ?case by (simp add: fields_def)
next
  case (Cons kv kvs)
  obtain k v where kv: "kv = (k, v)" by (cases kv)
  show ?case
  proof (cases "k = ''student_id''")
    case True
    with Cons kv show ?thesis by (simp add: fields_def)
  next
    case False
    have "update_parts (kv # kvs) (expr, names, vals) =
          update_parts kvs (expr @ [(''#_'' @ k, '':'' @ k)], AList.update (''#_'' @ k) k names,
                            AList.update ('':'' @ k) v vals)"
      using False kv by simp
    also have "AList.update (''#_'' @ k) k names = names @ [(''#_'' @ k, k)]"
      using Cons.prems kv by (simp add: update_absent)
    also have "AList.update ('':'' @ k) v vals = vals @ [('':'' @ k, v)]"
      using Cons.prems kv by (simp add: update_absent)
    also have "update_parts kvs (expr @ [(''#_'' @ k, '':'' @ k)], names @ [(''#_'' @ k, k)],
                                 vals @ [('':'' @ k, v)]) =
      ((expr @ [(''#_'' @ k, '':'' @ k)]) @ map (\<lambda>kv. (''#_'' @ fst kv, '':'' @ fst kv)) (fields kvs),
      (names @ [(''#_'' @ k, k)]) @ map (\<lambda>kv. (''#_'' @ fst kv, fst kv)) (fields kvs),
      (vals @ [('':'' @ k, v)]) @ map (\<lambda>kv. ('':'' @ fst kv, snd kv)) (fields kvs))"
      using Cons.prems kv by (intro Cons.IH) (auto simp: image_iff)
    finally show ?thesis using False kv by (simp add: fields_def)
  qed
qed

lemma map_of_placeholder:
  "distinct (map fst fs) \<Longrightarrow> (k, v) \<in> set fs \<Longrightarrow>
   map_of (map (\<lambda>kv. (p @ fst kv, g kv)) fs) (p @ k) = Some (g (k, v))"
  by (induction fs) (auto simp: image_iff)

lemma apply_set_resolved:
  "\<forall>kv \<in> set fs. map_of names (''#_'' @ fst kv) = Some (fst kv) \<and>
                   map_of vals ('':'' @ fst kv) = Some (snd kv) \<Longrightarrow>
   apply_set names vals it (map (\<lambda>kv. (''#_'' @ fst kv, '':'' @ fst kv)) fs) = Some (overwrite it fs)"
  by (induction fs arbitrary: it) (auto simp: overwrite_def)

lemma map_of_overwrite:
  "distinct (map fst fs) \<Longrightarrow> map_of (overwrite it fs) = map_of it ++ map_of fs"
proof (induction fs arbitrary: it)
  case Nil
  then show ?case by (simp add: overwrite_def)
next
  case (Cons kv fs)
  have "map_of (overwrite it (kv # fs)) = map_of (overwrite (AList.update (fst kv) (snd kv) it) fs)"
    by (simp add: overwrite_def)
  also have "\<dots> = map_of (AList.update (fst kv) (snd kv) it) ++ map_of fs"
    using Cons by simp
  also have "\<dots> = map_of it ++ map_of (kv # fs)"
    using Cons.prems
    by (auto simp: fun_eq_iff map_add_def update_conv' map_of_eq_None_iff image_iff split: option.splits)
  finally show ?case .
qed

lemma distinct_fields: "distinct (map fst kvs) \<Longrightarrow> distinct (map fst (fields kvs))"
  by (simp add: fields_def distinct_map_filter)

lemma map_of_fields:
  "map_of (fields kvs) k = (if k = ''student_id'' then None else map_of kvs k)"
  by (induction kvs) (auto simp: fields_def)

lemma put_call_explicit:
  assumes "distinct (map fst kvs)"
  shows "update_parts kvs ([], [], []) =
     (map (\<lambda>kv. (''#_'' @ fst kv, '':'' @ fst kv)) (fields kvs),
      map (\<lambda>kv. (''#_'' @ fst kv, fst kv)) (fields kvs),
      map (\<lambda>kv. ('':'' @ fst kv, snd kv)) (fields kvs))"
  using update_parts_explicit [OF assms, of "[]" "[]" "[]"] by simp

lemma apply_set_put:
  assumes "distinct (map fst kvs)"
  shows "apply_set (map (\<lambda>kv. (''#_'' @ fst kv, fst kv)) (fields kvs))
                   (map (\<lambda>kv. ('':'' @ fst kv, snd kv)) (fields kvs)) it
                   (map (\<lambda>kv. (''#_'' @ fst kv, '':'' @ fst kv)) (fields kvs)) =
         Some (overwrite it (fields kvs))"
proof (rule apply_set_resolved, rule ballI)
  fix kv assume "kv \<in> set (fields kvs)"
  then have m: "(fst kv, snd kv) \<in> set (fields kvs)" by simp
  have d: "distinct (map fst (fields kvs))" using assms by (rule distinct_fields)
  show "map_of (map (\<lambda>kv. (''#_'' @ fst kv, fst kv)) (fields kvs)) (''#_'' @ fst kv) = Some (fst kv) \<and>
        map_of (map (\<lambda>kv. ('':'' @ fst kv, snd kv)) (fields kvs)) ('':'' @ fst kv) = Some (snd kv)"
    using map_of_placeholder [OF d m, of "''#_''" fst] map_of_placeholder [OF d m, of "'':''" snd]
    by simp
qed

lemma update_nonempty: "AList.update a x it \<noteq> []"
  by (cases it) auto

lemma apply_set_keeps_nonempty:
  "it \<noteq> [] \<Longrightarrow> apply_set names vals it cs = Some it' \<Longrightarrow> it' \<noteq> []"
proof (induction cs arbitrary: it)
  case Nil
  then show ?case by simp
next
  case (Cons c cs)
  obtain n v where c: "c = (n, v)" by (cases c)
  from Cons.prems(2) c obtain a x where
    r: "apply_set names vals (AList.update a x it) cs = Some it'"
    by (auto split: option.splits)
  from Cons.IH [OF update_nonempty r] show ?case .
qed

lemma apply_set_nonempty:
  "cs \<noteq> [] \<Longrightarrow> apply_set names vals it cs = Some it' \<Longrightarrow> it' \<noteq> []"
proof (cases cs)
  case Nil
  then show "cs \<noteq> [] \<Longrightarrow> ?thesis" by simp
next
  case (Cons c cs')
  assume a: "apply_set names vals it cs = Some it'"
  obtain n v where c: "c = (n, v)" by (cases c)
  from a Cons c obtain a' x where
    r: "apply_set names vals (AList.update a' x it) cs' = Some it'"
    by (auto split: option.splits)
  from apply_set_keeps_nonempty [OF update_nonempty r] show ?thesis .
qed

subsection \<open>The calls on the table\<close>

lemma store_exec_get:
  "outage l (GetItem (JStr s)) = None \<Longrightarrow> s \<noteq> [] \<Longrightarrow>
   store_exec l (GetItem (JStr s)) m = Inr (\<lparr>Item = m s, Attributes = None\<rparr>, m)"
  by (simp add: store_exec_def)

lemma store_exec_delete:
  "outage l (DeleteItem (JStr s)) = None \<Longrightarrow> s \<noteq> [] \<Longrightarrow>
   store_exec l (DeleteItem (JStr s)) m = Inr (\<lparr>Item = None, Attributes = None\<rparr>, m(s := None))"
  by (simp add: store_exec_def)

lemma store_exec_put:
  "store_exec l (PutItem (JObj kvs)) m = Inr (r, m') \<Longrightarrow> map_of kvs ''student_id'' = Some (JStr s) \<Longrightarrow>
   s \<noteq> [] \<and> m' = m(s \<mapsto> kvs)"
  by (auto simp add: store_exec_def split: option.splits if_splits)

text \<open>Whatever the call, the store puts no record under the empty key.\<close>

lemma store_exec_no_empty_key:
  "m [] = None \<Longrightarrow> store_exec l c m = Inr (r, m') \<Longrightarrow> m' [] = None"
  by (cases c) (auto simp: store_exec_def key_of_Some split: option.splits json.splits)

lemma perform_calls: "calls (snd (perform l c t)) = calls t @ [c]"
  by (simp add: perform_def split: sum.splits prod.splits)

lemma perform_refused:
  "store_exec l c (items t) = Inl e \<Longrightarrow> perform l c t = (Inl e, t\<lparr>calls := calls t @ [c]\<rparr>)"
  by (simp add: perform_def)

lemma store_exec_shape:
  assumes "table_shape m" and "call_guarded c" and "store_exec l c m = Inr (r, m')"
  shows "table_shape m'"
proof (cases c)
  case (PutItem v)
  with assms(3) obtain kvs k s where "v = JObj kvs" "map_of kvs ''student_id'' = Some k"
    "key_of k = Some s" "m' = m(s \<mapsto> kvs)"
    by (auto simp: store_exec_def split: option.splits json.splits)
  moreover from this have "s \<noteq> []" "kvs \<noteq> []" by (auto simp: key_of_Some)
  ultimately show ?thesis using assms(1) by (auto simp: table_shape_def split: if_splits)
next
  case (GetItem k)
  with assms(1,3) show ?thesis by (auto simp: store_exec_def split: option.splits)
next
  case (UpdateItem k cs ns vs)
  with assms(3) obtain s it' where s: "key_of k = Some s"
    and a: "apply_set ns vs (case m s of None \<Rightarrow> [] | Some it \<Rightarrow> it) cs = Some it'"
    and m: "m' = m(s \<mapsto> it')"
    by (auto simp: store_exec_def split: option.splits)
  from assms(2) UpdateItem have "cs \<noteq> []" by simp
  from apply_set_nonempty [OF this a] have "it' \<noteq> []" .
  moreover from s have "s \<noteq> []" by (simp add: key_of_Some)
  ultimately show ?thesis using m assms(1) by (auto simp: table_shape_def split: if_splits)
next
  case (DeleteItem k)
  with assms(3) obtain s where "m' = m(s := None)"
    by (auto simp: store_exec_def split: option.splits)
  with assms(1) show ?thesis by (auto simp: table_shape_def split: if_splits)
qed

lemma perform_shape:
  assumes "table_shape (items t)" and "call_guarded c"
  shows "table_shape (items (snd (perform l c t)))"
proof (cases "store_exec l c (items t)")
  case (Inl e)
  with assms(1) show ?thesis by (simp add: perform_def)
next
  case (Inr p)
  obtain r m where p: "p = (r, m)" by (cases p)
  from store_exec_shape [OF assms Inr [unfolded p]] Inr p show ?thesis
    by (simp add: perform_def)
qed

subsection \<open>The branches\<close>

lemma handler_get:
  assumes "httpMethod ev = Some (JStr ''GET'')"
    and "query_params ev ''student_id'' = Some s"
    and "s \<noteq> []"
    and "outage l (GetItem (JStr s)) = None"
  shows "lambda_handler loads l ev t =
           ((case items t s of
               None \<Rightarrow> resp 404 (Some (JObj [(''error'', JStr ''not found'')]))
             | Some it \<Rightarrow>
                 if it = [] then resp 404 (Some (JObj [(''error'', JStr ''not found'')]))
                 else resp 200 (Some (JObj it))),
            t\<lparr>calls := calls t @ [GetItem (JStr s)]\<rparr>)"
  using assms(1,2,3) store_exec_get [of l s "items t", OF assms(4,3)]
  by (auto simp add: lambda_handler_def try_block_def handle_get_def perform_def split: option.splits)

lemma handler_delete:
  assumes "httpMethod ev = Some (JStr ''DELETE'')"
    and "query_params ev ''student_id'' = Some s"
    and "s \<noteq> []"
    and "outage l (DeleteItem (JStr s)) = None"
  shows "lambda_handler loads l ev t =
           (resp 200 (Some (JObj [(''message'', JStr (''Student '' @ s @ '' deleted''))])),
            \<lparr>items = (items t)(s := None), calls = calls t @ [DeleteItem (JStr s)]\<rparr>)"
  using assms(1,2,3) store_exec_delete [of l s "items t", OF assms(4,3)]
  by (simp add: lambda_handler_def try_block_def handle_delete_def perform_def)

lemma post_200:
  assumes "httpMethod ev = Some (JStr ''POST'')"
    and "loads (body_text ev) = Inr (JObj kvs)"
    and "map_of kvs ''student_id'' = Some (JStr s)"
    and "statusCode (fst (lambda_handler loads l ev t)) = 200"
  shows "s \<noteq> [] \<and>
         lambda_handler loads l ev t =
          (resp 200 (Some (JObj [(''message'', JStr ''Student record created''), (''student'', JObj kvs)])),
           \<lparr>items = (items t)(s \<mapsto> kvs), calls = calls t @ [PutItem (JObj kvs)]\<rparr>)"
proof -
  have mem: "''student_id'' \<in> fst ` set kvs"
    using assms(3) by (metis map_of_eq_None_iff option.distinct(1))
  show ?thesis
  proof (cases "store_exec l (PutItem (JObj kvs)) (items t)")
    case (Inl e)
    then have "statusCode (fst (lambda_handler loads l ev t)) = 500"
      using assms(1,2) mem
      by (simp add: lambda_handler_def try_block_def handle_post_def perform_def resp_simps)
    with assms(4) show ?thesis by simp
  next
    case (Inr p)
    obtain r m where p: "p = (r, m)" by (cases p)
    have "s \<noteq> [] \<and> m = (items t)(s \<mapsto> kvs)"
      using Inr p assms(3) by (auto dest: store_exec_put)
    then show ?thesis
      using assms(1,2) mem Inr p
      by (simp add: lambda_handler_def try_block_def handle_post_def perform_def)
  qed
qed

lemma effect_post: "effect_of l t (handle_post loads l ev t)"
proof (cases "\<exists>v. loads (body_text ev) = Inr v \<and> py_in ''student_id'' v = Inr True")
  case False
  then have "snd (handle_post loads l ev t) = t"
    by (auto simp: handle_post_def split: sum.splits)
  then show ?thesis by (simp add: effect_of_def)
next
  case True
  then obtain v where b: "loads (body_text ev) = Inr v" "py_in ''student_id'' v = Inr True"
    by blast
  have "call_guarded (PutItem v)" by simp
  moreover have "snd (handle_post loads l ev t) = snd (perform l (PutItem v) t)"
    using b by (simp add: handle_post_def split: prod.splits sum.splits)
  moreover have "\<forall>e. fst (perform l (PutItem v) t) = Inl e \<longrightarrow> fst (handle_post loads l ev t) = Inl e"
    using b by (simp add: handle_post_def split: prod.splits sum.splits)
  ultimately show ?thesis unfolding effect_of_def by blast
qed

lemma effect_get: "effect_of l t (handle_get l ev t)"
proof (cases "\<exists>s. query_params ev ''student_id'' = Some s \<and> s \<noteq> []")
  case False
  then have "snd (handle_get l ev t) = t"
    by (auto simp: handle_get_def split: option.splits)
  then show ?thesis by (simp add: effect_of_def)
next
  case True
  then obtain s where b: "query_params ev ''student_id'' = Some s" "s \<noteq> []"
    by blast
  have "call_guarded (GetItem (JStr s))" by simp
  moreover have "snd (handle_get l ev t) = snd (perform l (GetItem (JStr s)) t)"
    using b by (simp add: handle_get_def split: prod.splits sum.splits option.splits)
  moreover have "\<forall>e. fst (perform l (GetItem (JStr s)) t) = Inl e \<longrightarrow> fst (handle_get l ev t) = Inl e"
    using b by (simp add: handle_get_def split: prod.splits sum.splits)
  ultimately show ?thesis unfolding effect_of_def by blast
qed

lemma effect_delete: "effect_of l t (handle_delete l ev t)"
proof (cases "\<exists>s. query_params ev ''student_id'' = Some s \<and> s \<noteq> []")
  case False
  then have "snd (handle_delete l ev t) = t"
    by (auto simp: handle_delete_def split: option.splits)
  then show ?thesis by (simp add: effect_of_def)
next
  case True
  then obtain s where b: "query_params ev ''student_id'' = Some s" "s \<noteq> []"
    by blast
  have "call_guarded (DeleteItem (JStr s))" by simp
  moreover have "snd (handle_delete l ev t) = snd (perform l (DeleteItem (JStr s)) t)"
    using b by (simp add: handle_delete_def split: prod.splits sum.splits option.splits)
  moreover have "\<forall>e. fst (perform l (DeleteItem (JStr s)) t) = Inl e \<longrightarrow> fst (handle_delete l ev t) = Inl e"
    using b by (simp add: handle_delete_def split: prod.splits sum.splits)
  ultimately show ?thesis unfolding effect_of_def by blast
qed

lemma effect_put: "effect_of l t (handle_put loads l ev t)"
proof (cases "\<exists>v sid kvs. loads (body_text ev) = Inr v \<and> py_get v ''student_id'' = Inr sid \<and>
        truthy sid \<and> py_items v = Inr kvs \<and> fst (update_parts kvs ([], [], [])) \<noteq> []")
  case False
  then have "snd (handle_put loads l ev t) = t"
    by (auto simp: handle_put_def split: sum.splits prod.splits)
  then show ?thesis by (simp add: effect_of_def)
next
  case True
  then obtain v sid kvs where b: "loads (body_text ev) = Inr v" "py_get v ''student_id'' = Inr sid"
      "truthy sid" "py_items v = Inr kvs"
    and n: "fst (update_parts kvs ([], [], [])) \<noteq> []"
    by blast
  obtain expr ns vs where u: "update_parts kvs ([], [], []) = (expr, ns, vs)"
    by (cases "update_parts kvs ([], [], [])") auto
  have ne: "expr \<noteq> []" using n u by simp
  then have "call_guarded (UpdateItem sid expr ns vs)" by simp
  moreover have "snd (handle_put loads l ev t) = snd (perform l (UpdateItem sid expr ns vs) t)"
    using b u ne by (simp add: handle_put_def split: prod.splits sum.splits option.splits)
  moreover have "\<forall>e. fst (perform l (UpdateItem sid expr ns vs) t) = Inl e \<longrightarrow>
      fst (handle_put loads l ev t) = Inl e"
    using b u ne by (simp add: handle_put_def split: prod.splits sum.splits)
  ultimately show ?thesis unfolding effect_of_def by blast
qed

lemma effect_try: "effect_of l t (try_block loads l m ev t)"
  using effect_post effect_get effect_put effect_delete
  by (simp add: try_block_def) (simp add: effect_of_def)

lemma handler_effect:
  "snd (lambda_handler loads l ev t) = t \<or>
   (\<exists>c. call_guarded c \<and> snd (lambda_handler loads l ev t) = snd (perform l c t) \<and>
        (\<forall>e. fst (perform l c t) = Inl e \<longrightarrow>
             fst (lambda_handler loads l ev t) = resp 500 (Some (JObj [(''error'', JStr e)]))))"
proof (cases "(case httpMethod ev of None \<Rightarrow> JStr ''GET'' | Some m \<Rightarrow> m) = JStr ''OPTIONS''")
  case True
  then show ?thesis by (simp add: lambda_handler_def)
next
  case False
  let ?m = "case httpMethod ev of None \<Rightarrow> JStr ''GET'' | Some m \<Rightarrow> m"
  have h: "lambda_handler loads l ev t =
      (case try_block loads l ?m ev t of
         (Inl e, t') \<Rightarrow> (resp 500 (Some (JObj [(''error'', JStr e)])), t')
       | (Inr r, t') \<Rightarrow> (r, t'))"
    using False by (simp add: lambda_handler_def)
  have s: "snd (lambda_handler loads l ev t) = snd (try_block loads l ?m ev t)"
    unfolding h by (cases "try_block loads l ?m ev t") (auto split: sum.splits)
  have f: "fst (try_block loads l ?m ev t) = Inl e \<Longrightarrow>
      fst (lambda_handler loads l ev t) = resp 500 (Some (JObj [(''error'', JStr e)]))" for e
    unfolding h by (cases "try_block loads l ?m ev t") (auto split: sum.splits)
  from effect_try [of l t loads ?m ev] show ?thesis
    unfolding effect_of_def s using f by blast
qed

text \<open>
  The shape of the table is kept by every request, so every table that can be reached
  has it: no record under the empty key, no record without attributes.
\<close>

lemma handler_shape:
  "table_shape (items t) \<Longrightarrow> table_shape (items (snd (lambda_handler loads l ev t)))"
  using handler_effect [of loads l ev t] by (auto intro: perform_shape)

lemma reachable_shape: "reachable t \<Longrightarrow> table_shape (items t)"
proof (induction rule: reachable.induct)
  case init
  show ?case by (simp add: table_shape_def empty_table_def)
next
  case (step t loads l ev)
  then show ?case by (simp add: handler_shape)
qed

section \<open>The claims\<close>

subsection \<open>C1: create, read, delete\<close>

text \<open>
  Claim C1. A POST whose body is a mapping with \<^verbatim>\<open>student_id\<close> the string \<open>s\<close>, and any
  other fields, and that returns 200 is followed, with no write in between and a
  storage layer that serves the read, by a GET of \<open>s\<close> that returns 200 with the
  submitted mapping as the record; and after a DELETE of \<open>s\<close>, on any table, a GET of
  \<open>s\<close> returns 404. The store refuses a write under an empty key, so a POST that
  returns 200 has a key that the GET and the DELETE accept.
\<close>

theorem create_read_delete:
  assumes "httpMethod post = Some (JStr ''POST'')"
    and "loads (body_text post) = Inr (JObj kvs)"
    and "map_of kvs ''student_id'' = Some (JStr s)"
    and "statusCode (fst (lambda_handler loads lpost post t)) = 200"
    and "httpMethod get = Some (JStr ''GET'')"
    and "query_params get ''student_id'' = Some s"
    and "outage lget (GetItem (JStr s)) = None"
    and "httpMethod del = Some (JStr ''DELETE'')"
    and "query_params del ''student_id'' = Some s"
    and "outage ldel (DeleteItem (JStr s)) = None"
  shows "fst (lambda_handler pget lget get (snd (lambda_handler loads lpost post t))) =
           resp 200 (Some (JObj kvs)) \<and>
         statusCode (fst (lambda_handler pdel ldel del t')) = 200 \<and>
         fst (lambda_handler pget lget get (snd (lambda_handler pdel ldel del t'))) =
           resp 404 (Some (JObj [(''error'', JStr ''not found'')]))"
proof -
  have kne: "kvs \<noteq> []" using assms(3) by auto
  note post = post_200 [OF assms(1,2,3,4)]
  then have sne: "s \<noteq> []" by simp
  note get = handler_get [where l = lget and s = s and ev = get and loads = pget,
                          OF assms(5,6) sne assms(7)]
  have p: "snd (lambda_handler loads lpost post t) =
      \<lparr>items = (items t)(s \<mapsto> kvs), calls = calls t @ [PutItem (JObj kvs)]\<rparr>"
    using post by simp
  have g: "fst (lambda_handler pget lget get (snd (lambda_handler loads lpost post t))) =
           resp 200 (Some (JObj kvs))"
    unfolding p get using kne by simp
  note d = handler_delete [where l = ldel and s = s and ev = del and loads = pdel and t = t',
                           OF assms(8,9) sne assms(10)]
  have g2: "fst (lambda_handler pget lget get (snd (lambda_handler pdel ldel del t'))) =
           resp 404 (Some (JObj [(''error'', JStr ''not found'')]))"
    unfolding d get by simp
  from g d g2 show ?thesis by (simp add: resp_simps)
qed

theorem create_read_delete_witness:
  "fst (lambda_handler (loads_of [ann]) in_service (get_of ''s1'')
          (snd (lambda_handler (loads_of [ann]) in_service (post_of ann) empty_table))) =
     resp 200 (Some (JObj [(''student_id'', JStr ''s1''), (''name'', JStr ''Ann'')])) \<and>
   statusCode (fst (lambda_handler (loads_of [ann]) in_service (delete_of ''s1'') ann_table)) = 200 \<and>
   fst (lambda_handler (loads_of [ann]) in_service (get_of ''s1'')
          (snd (lambda_handler (loads_of [ann]) in_service (delete_of ''s1'') ann_table))) =
     resp 404 (Some (JObj [(''error'', JStr ''not found'')]))"
proof -
  let ?post = "post_of ann"
  let ?get = "get_of ''s1''"
  let ?del = "delete_of ''s1''"
  have 1: "httpMethod ?post = Some (JStr ''POST'')" by simp
  have 2: "loads_of [ann] (body_text ?post) =
      Inr (JObj [(''student_id'', JStr ''s1''), (''name'', JStr ''Ann'')])"
    by (simp add: handler_defs example_defs)
  have 3: "map_of [(''student_id'', JStr ''s1''), (''name'', JStr ''Ann'')] ''student_id'' = Some (JStr ''s1'')"
    by simp
  have 4: "statusCode (fst (lambda_handler (loads_of [ann]) in_service ?post empty_table)) = 200"
    by (simp add: handler_defs example_defs resp_simps)
  have 5: "httpMethod ?get = Some (JStr ''GET'')" by simp
  have 6: "query_params ?get ''student_id'' = Some ''s1''" by (simp add: query_params_def)
  have 7: "outage in_service (GetItem (JStr ''s1'')) = None" by (simp add: example_defs)
  have 8: "httpMethod ?del = Some (JStr ''DELETE'')" by simp
  have 9: "query_params ?del ''student_id'' = Some ''s1''" by (simp add: query_params_def)
  have 10: "outage in_service (DeleteItem (JStr ''s1'')) = None" by (simp add: example_defs)
  show ?thesis
    by (rule create_read_delete
          [where s = "''s1''" and post = ?post and get = ?get and del = ?del and
             loads = "loads_of [ann]" and pget = "loads_of [ann]" and pdel = "loads_of [ann]" and
             lpost = in_service and lget = in_service and ldel = in_service and
             t = empty_table and t' = ann_table,
           OF 1 2 3 4 5 6 7 8 9 10])
qed

subsection \<open>C2: the partial update\<close>

text \<open>
  Claim C2. A PUT whose body is a mapping with \<^verbatim>\<open>student_id\<close> the string \<open>s\<close> and at least
  one other field, on a table that holds the record \<open>r\<close> at \<open>s\<close>, with a storage layer
  that serves the update: the record at \<open>s\<close> becomes \<open>r\<close> with each field of the body
  other than the key set to the value the body gives it and every other field as it
  was, the records at all other keys stay as they were, and the 200 response carries
  the record after the update. The table is one the store keeps: it has no record
  under the empty key.
\<close>

theorem put_merges_fields:
  assumes "httpMethod ev = Some (JStr ''PUT'')"
    and "loads (body_text ev) = Inr (JObj kvs)"
    and "distinct (map fst kvs)"
    and "map_of kvs ''student_id'' = Some (JStr s)"
    and "fields kvs \<noteq> []"
    and "items t s = Some r"
    and "items t [] = None"
    and "outage l (put_call (JStr s) kvs) = None"
  shows "\<exists>r'. lambda_handler loads l ev t =
           (resp 200 (Some (JObj [(''message'', JStr ''Student record updated''), (''student'', JObj r')])),
            \<lparr>items = (items t)(s \<mapsto> r'), calls = calls t @ [put_call (JStr s) kvs]\<rparr>) \<and>
          (\<forall>k. map_of r' k =
                 (if k \<in> fst ` set (fields kvs) then map_of kvs k else map_of r k))"
proof -
  let ?r = "overwrite r (fields kvs)"
  have sne: "s \<noteq> []" using assms(6,7) by auto
  note ex = put_call_explicit [OF assms(3)]
  have pc: "put_call (JStr s) kvs =
      UpdateItem (JStr s) (map (\<lambda>kv. (''#_'' @ fst kv, '':'' @ fst kv)) (fields kvs))
        (map (\<lambda>kv. (''#_'' @ fst kv, fst kv)) (fields kvs))
        (map (\<lambda>kv. ('':'' @ fst kv, snd kv)) (fields kvs))"
    by (simp add: put_call_def ex)
  have se: "store_exec l (put_call (JStr s) kvs) (items t) =
        Inr (\<lparr>Item = None, Attributes = Some ?r\<rparr>, (items t)(s \<mapsto> ?r))"
    using assms(6) sne assms(8) [unfolded pc] apply_set_put [OF assms(3), of r]
    by (simp add: store_exec_def pc)
  have pf: "perform l (put_call (JStr s) kvs) t =
        (Inr \<lparr>Item = None, Attributes = Some ?r\<rparr>,
         \<lparr>items = (items t)(s \<mapsto> ?r), calls = calls t @ [put_call (JStr s) kvs]\<rparr>)"
    by (simp add: perform_def se)
  have h: "lambda_handler loads l ev t =
           (resp 200 (Some (JObj [(''message'', JStr ''Student record updated''), (''student'', JObj ?r)])),
            \<lparr>items = (items t)(s \<mapsto> ?r), calls = calls t @ [put_call (JStr s) kvs]\<rparr>)"
    using assms(1,2,4,5) sne pf
    by (simp add: lambda_handler_def try_block_def handle_put_def ex pc)
  have m: "\<forall>k. map_of ?r k = (if k \<in> fst ` set (fields kvs) then map_of kvs k else map_of r k)"
  proof
    fix k
    have "map_of ?r k = (map_of r ++ map_of (fields kvs)) k"
      using map_of_overwrite [OF distinct_fields [OF assms(3)]] by simp
    also have "\<dots> = (if k \<in> fst ` set (fields kvs) then map_of kvs k else map_of r k)"
    proof (cases "k \<in> fst ` set (fields kvs)")
      case True
      then have "map_of (fields kvs) k \<noteq> None" by (simp add: map_of_eq_None_iff)
      moreover from this have "map_of (fields kvs) k = map_of kvs k"
        by (simp add: map_of_fields split: if_splits)
      ultimately show ?thesis using True by (auto simp: map_add_def split: option.splits)
    next
      case False
      then have "map_of (fields kvs) k = None" by (simp add: map_of_eq_None_iff)
      with False show ?thesis by (simp add: map_add_def)
    qed
    finally show "map_of ?r k = (if k \<in> fst ` set (fields kvs) then map_of kvs k else map_of r k)" .
  qed
  from h m show ?thesis by blast
qed

theorem put_merges_fields_witness:
  "\<exists>r'. lambda_handler (loads_of [grade_a]) in_service (put_of grade_a) ann_table =
          (resp 200 (Some (JObj [(''message'', JStr ''Student record updated''), (''student'', JObj r')])),
           \<lparr>items = [''s1'' \<mapsto> r'],
            calls = [put_call (JStr ''s1'') [(''student_id'', JStr ''s1''), (''grade'', JStr ''A'')]]\<rparr>) \<and>
         map_of r' ''student_id'' = Some (JStr ''s1'') \<and>
         map_of r' ''name'' = Some (JStr ''Ann'') \<and>
         map_of r' ''grade'' = Some (JStr ''A'')"
proof -
  let ?ev = "put_of grade_a"
  let ?kvs = "[(''student_id'', JStr ''s1''), (''grade'', JStr ''A'')]"
  let ?r = "[(''student_id'', JStr ''s1''), (''name'', JStr ''Ann'')]"
  have 1: "httpMethod ?ev = Some (JStr ''PUT'')" by simp
  have 2: "loads_of [grade_a] (body_text ?ev) = Inr (JObj ?kvs)"
    by (simp add: handler_defs example_defs)
  have 3: "distinct (map fst ?kvs)" by simp
  have 4: "map_of ?kvs ''student_id'' = Some (JStr ''s1'')" by simp
  have 5: "fields ?kvs \<noteq> []" by (simp add: fields_def)
  have 6: "items ann_table ''s1'' = Some ?r" by (simp add: ann_table_def)
  have 7: "items ann_table [] = None" by (simp add: ann_table_def)
  have 8: "outage in_service (put_call (JStr ''s1'') ?kvs) = None" by (simp add: example_defs)
  from put_merges_fields
         [where ev = ?ev and loads = "loads_of [grade_a]" and kvs = ?kvs and s = "''s1''" and
            t = ann_table and r = ?r and l = in_service,
          OF 1 2 3 4 5 6 7 8]
  obtain r' where
    h: "lambda_handler (loads_of [grade_a]) in_service ?ev ann_table =
          (resp 200 (Some (JObj [(''message'', JStr ''Student record updated''), (''student'', JObj r')])),
           \<lparr>items = (items ann_table)(''s1'' \<mapsto> r'),
            calls = calls ann_table @ [put_call (JStr ''s1'') ?kvs]\<rparr>)"
    and m: "\<forall>k. map_of r' k = (if k \<in> fst ` set (fields ?kvs) then map_of ?kvs k else map_of ?r k)"
    by blast
  from m have "map_of r' ''student_id'' = Some (JStr ''s1'')" "map_of r' ''name'' = Some (JStr ''Ann'')"
    "map_of r' ''grade'' = Some (JStr ''A'')"
    by (simp_all add: fields_def)
  with h show ?thesis by (auto simp: ann_table_def)
qed

subsection \<open>C3: read by key\<close>

text \<open>
  Claim C3, as amended. A GET whose \<^verbatim>\<open>student_id\<close> query parameter is present and not
  empty, on a storage layer that serves the read: 404 when the table has no record at
  that key, and otherwise 200 with the stored record itself as the body, nothing
  wrapped around it, added or removed. The table keeps its records. A stored record
  has at least one attribute, as in every table that can be reached.
\<close>

theorem get_by_key:
  assumes "httpMethod ev = Some (JStr ''GET'')"
    and "query_params ev ''student_id'' = Some s"
    and "s \<noteq> []"
    and "items t s \<noteq> Some []"
    and "outage l (GetItem (JStr s)) = None"
  shows "lambda_handler loads l ev t =
           ((case items t s of
               None \<Rightarrow> resp 404 (Some (JObj [(''error'', JStr ''not found'')]))
             | Some it \<Rightarrow> resp 200 (Some (JObj it))),
            t\<lparr>calls := calls t @ [GetItem (JStr s)]\<rparr>)"
  using handler_get [where l = l and s = s and ev = ev and loads = loads and t = t,
                     OF assms(1,2,3,5)]
        assms(4)
  by (auto split: option.splits)

theorem get_by_key_witness:
  "lambda_handler (loads_of []) in_service (get_of ''s1'') ann_table =
     (resp 200 (Some (JObj [(''student_id'', JStr ''s1''), (''name'', JStr ''Ann'')])),
      \<lparr>items = [''s1'' \<mapsto> [(''student_id'', JStr ''s1''), (''name'', JStr ''Ann'')]],
       calls = [GetItem (JStr ''s1'')]\<rparr>) \<and>
   lambda_handler (loads_of []) in_service (get_of ''s1'') empty_table =
     (resp 404 (Some (JObj [(''error'', JStr ''not found'')])),
      \<lparr>items = Map.empty, calls = [GetItem (JStr ''s1'')]\<rparr>)"
proof -
  let ?ev = "get_of ''s1''"
  have 1: "httpMethod ?ev = Some (JStr ''GET'')" by simp
  have 2: "query_params ?ev ''student_id'' = Some ''s1''" by (simp add: query_params_def)
  have 3: "''s1'' \<noteq> []" by simp
  have 4: "items ann_table ''s1'' \<noteq> Some []" by (simp add: ann_table_def)
  have 5: "items empty_table ''s1'' \<noteq> Some []" by (simp add: empty_table_def)
  have 6: "outage in_service (GetItem (JStr ''s1'')) = None" by (simp add: example_defs)
  from get_by_key [where ev = ?ev and s = "''s1''" and t = ann_table and l = in_service and
                     loads = "loads_of []", OF 1 2 3 4 6]
       get_by_key [where ev = ?ev and s = "''s1''" and t = empty_table and l = in_service and
                     loads = "loads_of []", OF 1 2 3 5 6]
  show ?thesis by (simp add: empty_table_def ann_table_def)
qed

text \<open>
  The claim as stated fails at a \<^verbatim>\<open>student_id\<close> parameter that is present and empty: the
  table has no record at that key, and the GET returns 400, not 404.
\<close>

theorem get_empty_id_counterexample:
  "statusCode (fst (lambda_handler (loads_of []) in_service (get_of []) empty_table)) = 400"
  by (simp add: handler_defs example_defs resp_simps)

subsection \<open>C4: the keys of the writes\<close>

text \<open>
  Claim C4 fails on the code. The POST branch only tests that the payload has a
  \<^verbatim>\<open>student_id\<close> member, where the PUT, GET and DELETE branches refuse an empty one: a
  POST whose \<^verbatim>\<open>student_id\<close> is the empty string reaches the write of the table with that
  key, whatever the table and the storage layer, and what comes back is the 500 of the
  exception of the layer. The PUT with the same body is answered 400 before any call.
\<close>

theorem post_empty_id_reaches_write:
  "calls (snd (lambda_handler (loads_of [nobody]) l (post_of nobody) t)) =
     calls t @ [PutItem (JObj [(''student_id'', JStr []), (''name'', JStr ''Ann'')])] \<and>
   statusCode (fst (lambda_handler (loads_of [nobody]) l (post_of nobody) t)) = 500 \<and>
   lambda_handler (loads_of [nobody]) l (put_of nobody) t =
     (resp 400 (Some (JObj [(''error'', JStr ''student_id is required'')])), t)"
  by (simp add: handler_defs loads_of_def nobody_def quote_def escape_char_def resp_simps
           split: option.splits)

subsection \<open>C5: the preflight request\<close>

text \<open>
  Claim C5, as amended. A request whose method is OPTIONS is answered, whatever the
  table holds, with status 200, the four fixed headers and the body \<^verbatim>\<open>{}\<close>, the text
  of an empty JSON object; the table is not called.
\<close>

theorem options_response:
  "httpMethod ev = Some (JStr ''OPTIONS'') \<Longrightarrow>
   lambda_handler loads l ev t =
     (\<lparr>statusCode = 200,
       headers =
         [(''Content-Type'', ''application/json''),
          (''Access-Control-Allow-Origin'', ''*''),
          (''Access-Control-Allow-Headers'', ''Content-Type,Authorization''),
          (''Access-Control-Allow-Methods'', ''GET,POST,PUT,DELETE,OPTIONS'')],
       body = ''{}''\<rparr>, t)"
  by (simp add: lambda_handler_def resp_def)

theorem options_response_witness:
  "lambda_handler (loads_of []) out_of_reach
     \<lparr>httpMethod = Some (JStr ''OPTIONS''), body = None, queryStringParameters = None\<rparr> ann_table =
     (\<lparr>statusCode = 200,
       headers =
         [(''Content-Type'', ''application/json''),
          (''Access-Control-Allow-Origin'', ''*''),
          (''Access-Control-Allow-Headers'', ''Content-Type,Authorization''),
          (''Access-Control-Allow-Methods'', ''GET,POST,PUT,DELETE,OPTIONS'')],
       body = ''{}''\<rparr>, ann_table)"
  using options_response
          [where ev = "\<lparr>httpMethod = Some (JStr ''OPTIONS''), body = None, queryStringParameters = None\<rparr>"]
  by simp

text \<open>The claim as stated fails on the body: it is never the empty string.\<close>

theorem options_body_counterexample:
  "response.body (fst (lambda_handler (loads_of []) in_service
      \<lparr>httpMethod = Some (JStr ''OPTIONS''), body = None, queryStringParameters = None\<rparr>
      empty_table)) \<noteq> []"
  by (simp add: lambda_handler_def resp_def)

subsection \<open>C6: missing input\<close>

text \<open>
  Claim C6, as amended. A POST whose body is a JSON object without \<^verbatim>\<open>student_id\<close>, a GET
  or a DELETE whose query parameters have no \<^verbatim>\<open>student_id\<close>, and a PUT whose body is a
  JSON object without \<^verbatim>\<open>student_id\<close> return 400 with the error body, and a PUT whose body
  is a JSON object with \<^verbatim>\<open>student_id\<close> and no other field returns 400 with an error body;
  in each case the table is left as it was and is not called. An absent or empty body
  counts as the empty object.
\<close>

theorem missing_input_400:
  "(httpMethod ev = Some (JStr ''POST'') \<and> loads (body_text ev) = Inr (JObj kvs) \<and>
    ''student_id'' \<notin> fst ` set kvs \<longrightarrow>
      lambda_handler loads l ev t =
        (resp 400 (Some (JObj [(''error'', JStr ''student_id is required'')])), t)) \<and>
   ((httpMethod ev = Some (JStr ''GET'') \<or> httpMethod ev = Some (JStr ''DELETE'')) \<and>
    query_params ev ''student_id'' = None \<longrightarrow>
      lambda_handler loads l ev t =
        (resp 400 (Some (JObj [(''error'', JStr ''student_id is required'')])), t)) \<and>
   (httpMethod ev = Some (JStr ''PUT'') \<and> loads (body_text ev) = Inr (JObj kvs) \<and>
    ''student_id'' \<notin> fst ` set kvs \<longrightarrow>
      lambda_handler loads l ev t =
        (resp 400 (Some (JObj [(''error'', JStr ''student_id is required'')])), t)) \<and>
   (httpMethod ev = Some (JStr ''PUT'') \<and> loads (body_text ev) = Inr (JObj kvs) \<and>
    fst ` set kvs = {''student_id''} \<longrightarrow>
      (\<exists>msg. lambda_handler loads l ev t = (resp 400 (Some (JObj [(''error'', JStr msg)])), t)))"
proof (intro conjI impI)
  assume "httpMethod ev = Some (JStr ''POST'') \<and> loads (body_text ev) = Inr (JObj kvs) \<and>
    ''student_id'' \<notin> fst ` set kvs"
  then show "lambda_handler loads l ev t =
        (resp 400 (Some (JObj [(''error'', JStr ''student_id is required'')])), t)"
    by (simp add: lambda_handler_def try_block_def handle_post_def)
next
  assume "(httpMethod ev = Some (JStr ''GET'') \<or> httpMethod ev = Some (JStr ''DELETE'')) \<and>
    query_params ev ''student_id'' = None"
  then show "lambda_handler loads l ev t =
        (resp 400 (Some (JObj [(''error'', JStr ''student_id is required'')])), t)"
    by (auto simp add: lambda_handler_def try_block_def handle_get_def handle_delete_def)
next
  assume "httpMethod ev = Some (JStr ''PUT'') \<and> loads (body_text ev) = Inr (JObj kvs) \<and>
    ''student_id'' \<notin> fst ` set kvs"
  then have "map_of kvs ''student_id'' = None" "httpMethod ev = Some (JStr ''PUT'')"
    "loads (body_text ev) = Inr (JObj kvs)"
    by (simp_all add: map_of_eq_None_iff)
  then show "lambda_handler loads l ev t =
        (resp 400 (Some (JObj [(''error'', JStr ''student_id is required'')])), t)"
    by (simp add: lambda_handler_def try_block_def handle_put_def)
next
  assume a: "httpMethod ev = Some (JStr ''PUT'') \<and> loads (body_text ev) = Inr (JObj kvs) \<and>
    fst ` set kvs = {''student_id''}"
  then have u: "update_parts kvs ([], [], []) = ([], [], [])"
    by (simp add: update_parts_only_key)
  let ?msg = "if truthy (case map_of kvs ''student_id'' of None \<Rightarrow> JNull | Some v \<Rightarrow> v)
              then ''no fields to update'' else ''student_id is required''"
  from a u have "lambda_handler loads l ev t = (resp 400 (Some (JObj [(''error'', JStr ?msg)])), t)"
    by (simp add: lambda_handler_def try_block_def handle_put_def)
  then show "\<exists>msg. lambda_handler loads l ev t = (resp 400 (Some (JObj [(''error'', JStr msg)])), t)"
    by blast
qed

theorem missing_input_400_witness:
  "lambda_handler (loads_of [JObj []]) in_service
     \<lparr>httpMethod = Some (JStr ''POST''), body = None, queryStringParameters = None\<rparr> empty_table =
     (resp 400 (Some (JObj [(''error'', JStr ''student_id is required'')])), empty_table) \<and>
   lambda_handler (loads_of [JObj []]) in_service
     \<lparr>httpMethod = Some (JStr ''GET''), body = None, queryStringParameters = None\<rparr> empty_table =
     (resp 400 (Some (JObj [(''error'', JStr ''student_id is required'')])), empty_table) \<and>
   lambda_handler (loads_of [JObj []]) in_service
     \<lparr>httpMethod = Some (JStr ''DELETE''), body = None, queryStringParameters = None\<rparr> empty_table =
     (resp 400 (Some (JObj [(''error'', JStr ''student_id is required'')])), empty_table) \<and>
   lambda_handler (loads_of [JObj []]) in_service
     \<lparr>httpMethod = Some (JStr ''PUT''), body = None, queryStringParameters = None\<rparr> empty_table =
     (resp 400 (Some (JObj [(''error'', JStr ''student_id is required'')])), empty_table) \<and>
   (\<exists>msg. lambda_handler (loads_of [JObj [(''student_id'', JStr ''s1'')]]) in_service
     (put_of (JObj [(''student_id'', JStr ''s1'')])) empty_table =
     (resp 400 (Some (JObj [(''error'', JStr msg)])), empty_table))"
proof -
  let ?p = "loads_of [JObj []]"
  let ?q = "loads_of [JObj [(''student_id'', JStr ''s1'')]]"
  let ?post = "\<lparr>httpMethod = Some (JStr ''POST''), body = None, queryStringParameters = None\<rparr>"
  let ?get = "\<lparr>httpMethod = Some (JStr ''GET''), body = None, queryStringParameters = None\<rparr>"
  let ?del = "\<lparr>httpMethod = Some (JStr ''DELETE''), body = None, queryStringParameters = None\<rparr>"
  let ?put = "\<lparr>httpMethod = Some (JStr ''PUT''), body = None, queryStringParameters = None\<rparr>"
  let ?only = "put_of (JObj [(''student_id'', JStr ''s1'')])"
  have p: "?p (body_text ?post) = Inr (JObj [])" "?p (body_text ?put) = Inr (JObj [])"
    by (simp_all add: body_text_def loads_of_def)
  have q: "?q (body_text ?only) = Inr (JObj [(''student_id'', JStr ''s1'')])"
    by (simp add: body_text_def loads_of_def quote_def escape_char_def)
  have n: "query_params ?get ''student_id'' = None" "query_params ?del ''student_id'' = None"
    by (simp_all add: query_params_def)
  from missing_input_400 [where ev = ?post and loads = ?p and kvs = "[]" and l = in_service and t = empty_table]
       missing_input_400 [where ev = ?get and loads = ?p and kvs = "[]" and l = in_service and t = empty_table]
       missing_input_400 [where ev = ?del and loads = ?p and kvs = "[]" and l = in_service and t = empty_table]
       missing_input_400 [where ev = ?put and loads = ?p and kvs = "[]" and l = in_service and t = empty_table]
       missing_input_400 [where ev = ?only and loads = ?q and kvs = "[(''student_id'', JStr ''s1'')]" and
                            l = in_service and t = empty_table]
       p q n
  show ?thesis by simp
qed

text \<open>
  The claim as stated fails at a body that is JSON and no object: no branch tests the
  type of the parsed body, so the POST of \<^verbatim>\<open>null\<close> and the PUT of \<^verbatim>\<open>[]\<close>, which have no
  \<^verbatim>\<open>student_id\<close>, leave the \<^verbatim>\<open>try\<close> block by an exception and return 500, not 400.
\<close>

theorem missing_input_counterexample:
  "statusCode (fst (lambda_handler (loads_of [JNull]) in_service (post_of JNull) empty_table)) = 500 \<and>
   statusCode (fst (lambda_handler (loads_of [JArr []]) in_service (put_of (JArr [])) empty_table)) = 500"
  by (simp add: handler_defs example_defs resp_simps)

subsection \<open>C7: delete\<close>

text \<open>
  Claim C7, as amended. A DELETE whose \<^verbatim>\<open>student_id\<close> query parameter is present and not
  empty, on a storage layer that serves the call: the record at that key is gone
  afterwards, the other records are as they were, and the response is 200 with the
  confirmation message, the same whether or not the table held a record at that key.
\<close>

theorem delete_idempotent:
  assumes "httpMethod ev = Some (JStr ''DELETE'')"
    and "query_params ev ''student_id'' = Some s"
    and "s \<noteq> []"
    and "outage l (DeleteItem (JStr s)) = None"
  shows "lambda_handler loads l ev t =
           (resp 200 (Some (JObj [(''message'', JStr (''Student '' @ s @ '' deleted''))])),
            \<lparr>items = (items t)(s := None), calls = calls t @ [DeleteItem (JStr s)]\<rparr>)"
  by (rule handler_delete [where l = l and s = s, OF assms])

theorem delete_idempotent_witness:
  "lambda_handler (loads_of []) in_service (delete_of ''s1'') ann_table =
     (resp 200 (Some (JObj [(''message'', JStr ''Student s1 deleted'')])),
      \<lparr>items = Map.empty, calls = [DeleteItem (JStr ''s1'')]\<rparr>) \<and>
   lambda_handler (loads_of []) in_service (delete_of ''s1'') empty_table =
     (resp 200 (Some (JObj [(''message'', JStr ''Student s1 deleted'')])),
      \<lparr>items = Map.empty, calls = [DeleteItem (JStr ''s1'')]\<rparr>)"
proof -
  let ?ev = "delete_of ''s1''"
  have 1: "httpMethod ?ev = Some (JStr ''DELETE'')" by simp
  have 2: "query_params ?ev ''student_id'' = Some ''s1''" by (simp add: query_params_def)
  have 3: "''s1'' \<noteq> []" by simp
  have 4: "outage in_service (DeleteItem (JStr ''s1'')) = None" by (simp add: example_defs)
  from delete_idempotent
         [where ev = ?ev and s = "''s1''" and l = in_service and loads = "loads_of []" and
            t = ann_table, OF 1 2 3 4]
       delete_idempotent
         [where ev = ?ev and s = "''s1''" and l = in_service and loads = "loads_of []" and
            t = empty_table, OF 1 2 3 4]
  show ?thesis by (simp add: empty_table_def ann_table_def)
qed

text \<open>
  The claim as stated fails at a \<^verbatim>\<open>student_id\<close> parameter that is present and empty: the
  DELETE returns 400, an error, and not 200.
\<close>

theorem delete_empty_id_counterexample:
  "statusCode (fst (lambda_handler (loads_of []) in_service (delete_of []) empty_table)) = 400"
  by (simp add: handler_defs example_defs resp_simps)

subsection \<open>C8: exceptions of the storage layer\<close>

text \<open>
  Claim C8. When the call a request makes on the table raises an exception, the
  handler returns status 500 with the body \<^verbatim>\<open>{"error": message}\<close> of that exception, and
  the records are as they were. The handler returns a response for every request:
  nothing is raised out of it.
\<close>

theorem storage_exception_500:
  assumes "calls (snd (lambda_handler loads l ev t)) = calls t @ [c]"
    and "store_exec l c (items t) = Inl e"
  shows "lambda_handler loads l ev t =
           (resp 500 (Some (JObj [(''error'', JStr e)])), t\<lparr>calls := calls t @ [c]\<rparr>)"
proof -
  from handler_effect [of loads l ev t] assms(1)
  obtain c' where c': "snd (lambda_handler loads l ev t) = snd (perform l c' t)"
    and r: "\<forall>e. fst (perform l c' t) = Inl e \<longrightarrow>
             fst (lambda_handler loads l ev t) = resp 500 (Some (JObj [(''error'', JStr e)]))"
    by auto
  from c' assms(1) have "c' = c" by (simp add: perform_calls)
  with c' r perform_refused [OF assms(2)] show ?thesis
    by (simp add: prod_eq_iff)
qed

theorem storage_exception_500_witness:
  "lambda_handler (loads_of [ann]) out_of_reach (post_of ann) empty_table =
     (resp 500 (Some (JObj [(''error'', JStr ''Could not connect to the endpoint URL'')])),
      \<lparr>items = Map.empty, calls = [PutItem ann]\<rparr>)"
proof -
  have 1: "calls (snd (lambda_handler (loads_of [ann]) out_of_reach (post_of ann) empty_table)) =
      calls empty_table @ [PutItem ann]"
    by (simp add: handler_defs example_defs)
  have 2: "store_exec out_of_reach (PutItem ann) (items empty_table) =
      Inl ''Could not connect to the endpoint URL''"
    by (simp add: store_exec_def example_defs)
  from storage_exception_500 [OF 1 2] show ?thesis by (simp add: empty_table_def)
qed

subsection \<open>C9: the dispatch on the method\<close>

text \<open>
  Claim C9. A request whose event has no \<^verbatim>\<open>httpMethod\<close> is handled as the same request
  with the method GET; a request whose \<^verbatim>\<open>httpMethod\<close> is present and none of GET, POST,
  PUT, DELETE and OPTIONS, be it another text, \<^verbatim>\<open>None\<close> or any other value, returns 405
  with the error body, and the table is left as it was and is not called.
\<close>

theorem method_dispatch:
  "(httpMethod ev = None \<longrightarrow>
      lambda_handler loads l ev t = lambda_handler loads l (ev\<lparr>httpMethod := Some (JStr ''GET'')\<rparr>) t) \<and>
   (httpMethod ev = Some m \<and>
    m \<notin> {JStr ''GET'', JStr ''POST'', JStr ''PUT'', JStr ''DELETE'', JStr ''OPTIONS''} \<longrightarrow>
      lambda_handler loads l ev t =
        (resp 405 (Some (JObj [(''error'', JStr ''method not allowed'')])), t))"
  by (simp add: lambda_handler_def try_block_def handle_get_def query_params_def)

theorem method_dispatch_witness:
  "lambda_handler (loads_of []) in_service
     \<lparr>httpMethod = None, body = None, queryStringParameters = Some (map_of [(''student_id'', ''s1'')])\<rparr>
     ann_table =
   lambda_handler (loads_of []) in_service (get_of ''s1'') ann_table \<and>
   lambda_handler (loads_of []) in_service
     \<lparr>httpMethod = Some (JStr ''PATCH''), body = None, queryStringParameters = None\<rparr> ann_table =
     (resp 405 (Some (JObj [(''error'', JStr ''method not allowed'')])), ann_table) \<and>
   lambda_handler (loads_of []) in_service
     \<lparr>httpMethod = Some JNull, body = None,
      queryStringParameters = Some (map_of [(''student_id'', ''s1'')])\<rparr> ann_table =
     (resp 405 (Some (JObj [(''error'', JStr ''method not allowed'')])), ann_table)"
  using method_dispatch
          [where ev = "\<lparr>httpMethod = None, body = None,
                         queryStringParameters = Some (map_of [(''student_id'', ''s1'')])\<rparr>" and
             loads = "loads_of []" and l = in_service and t = ann_table]
        method_dispatch
          [where ev = "\<lparr>httpMethod = Some (JStr ''PATCH''), body = None, queryStringParameters = None\<rparr>" and
             m = "JStr ''PATCH''" and loads = "loads_of []" and l = in_service and t = ann_table]
        method_dispatch
          [where ev = "\<lparr>httpMethod = Some JNull, body = None,
                         queryStringParameters = Some (map_of [(''student_id'', ''s1'')])\<rparr>" and
             m = JNull and loads = "loads_of []" and l = in_service and t = ann_table]
  by simp

subsection \<open>C10: a body that is not JSON\<close>

text \<open>
  Claim C10. A POST or a PUT whose body is a non-empty text that \<^verbatim>\<open>json.loads\<close> rejects
  returns status 500, not 400, with the message of the parse error in the body
  \<^verbatim>\<open>{"error": message}\<close>; the table is left as it was and is not called.
\<close>

theorem invalid_json_body:
  "httpMethod ev = Some (JStr m) \<Longrightarrow> m = ''POST'' \<or> m = ''PUT'' \<Longrightarrow>
   event.body ev = Some b \<Longrightarrow> b \<noteq> [] \<Longrightarrow> loads b = Inl msg \<Longrightarrow>
   lambda_handler loads l ev t = (resp 500 (Some (JObj [(''error'', JStr msg)])), t)"
  by (auto simp add: lambda_handler_def try_block_def handle_post_def handle_put_def body_text_def)

theorem invalid_json_body_witness:
  "lambda_handler (loads_of []) in_service
     \<lparr>httpMethod = Some (JStr ''PUT''), body = Some ''not json'', queryStringParameters = None\<rparr>
     empty_table =
     (resp 500 (Some (JObj [(''error'', JStr ''Expecting value: line 1 column 1 (char 0)'')])),
      empty_table)"
  using invalid_json_body
          [where ev = "\<lparr>httpMethod = Some (JStr ''PUT''), body = Some ''not json'',
                         queryStringParameters = None\<rparr>" and
             m = "''PUT''" and b = "''not json''" and loads = "loads_of []" and
             msg = "''Expecting value: line 1 column 1 (char 0)''" and l = in_service and
             t = empty_table]
  by (simp add: loads_of_def)

end
